theory Spec2Isabelle
  imports
    Main
    "HOL-Library.Char_ord"
    "HOL-Library.List_Lexorder"
    "HOL-Library.Option_ord"
    "HOL-Library.Product_Lexorder"
begin

section \<open>The menu data job: data model\<close>

text \<open>
  The script \<^verbatim>\<open>main.py\<close> is one chain of dataframe and database calls. The embedding
  follows it variable by variable. The dataframe and database operations it calls are
  modelled with the behaviour of the API the script is written against (polars 0.20, whose
  \<^verbatim>\<open>replace\<close> takes \<^verbatim>\<open>return_dtype\<close>; SQLAlchemy tables created from the declared classes
  on PostgreSQL).

  A sheet is a frame of text columns: a cell is a string or null. The two library functions
  that read the inside of a string are parameters of the model: \<open>strptime\<close>, the parse of one
  string under the pattern \<^verbatim>\<open>'New - %m/%d/%Y'\<close>, and \<open>cast\<close>, the non-strict cast of one string
  to a 64-bit integer.
\<close>

type_synonym cell = "string option"

record frame =
  columns :: "string list"
  rows :: "cell list list"

definition wf_frame :: "frame \<Rightarrow> bool" where
  "wf_frame df \<longleftrightarrow>
     distinct (columns df) \<and> (\<forall>r \<in> set (rows df). length r = length (columns df))"

record datetime =
  year :: int
  month :: nat
  day :: nat
  hour :: nat
  minute :: nat
  second :: nat
  microsecond :: nat

text \<open>
  Every exception that ends the job is a value. \<open>ComputeError\<close> is the failure of a strict
  string conversion, \<open>ShapeError\<close> the attempt to add a column of one length to a frame of
  another height; the three violations are what the database raises on an insert.
\<close>

datatype error =
    ColumnNotFoundError string
  | DuplicateError
  | ComputeError string
  | ShapeError nat nat
  | NotNullViolation string
  | ForeignKeyViolation string
  | UniqueViolation string

text \<open>The cleaned wide table, after \<^verbatim>\<open>select\<close> and \<^verbatim>\<open>rename\<close>: one record per row.\<close>

record clean_row =
  name :: cell
  ingredients :: cell
  allergens :: cell
  picture :: cell
  restaurant :: cell
  category :: cell
  valid_from :: datetime

section \<open>Dataframe operations\<close>

text \<open>
  The value of column \<open>c\<close> in a row of a frame with column names \<open>cs\<close>. For a name that is
  no column the function answers null, where polars raises: each operation below checks
  with \<open>missing\<close> that its columns exist before it reads them, and the theorems read only
  columns that a hypothesis or the success of the pipeline puts in the frame.
\<close>

definition cell_at :: "string list \<Rightarrow> cell list \<Rightarrow> string \<Rightarrow> cell" where
  "cell_at cs r c = (case map_of (zip cs r) c of Some v \<Rightarrow> v | None \<Rightarrow> None)"

text \<open>The first of the names \<open>cs\<close> that is not a column, if any.\<close>

definition missing :: "string list \<Rightarrow> string list \<Rightarrow> string option" where
  "missing cs have = find (\<lambda>c. c \<notin> set have) cs"

text \<open>\<^verbatim>\<open>df[c]\<close>: a column as a series.\<close>

definition get_column :: "frame \<Rightarrow> string \<Rightarrow> error + cell list" where
  "get_column df c =
     (if c \<in> set (columns df) then Inr (map (\<lambda>r. cell_at (columns df) r c) (rows df))
      else Inl (ColumnNotFoundError c))"

text \<open>
  \<^verbatim>\<open>df.join(other, how='left', left_on=..., right_on=...)\<close>. Every row of the left frame
  is kept, in order: once for each row of \<open>other\<close> with the same key, or once with nulls in the
  columns of \<open>other\<close> when there is none. A key with a null in it matches nothing. The key
  columns of \<open>other\<close> are not repeated; a column of \<open>other\<close> whose name the left frame already
  has gets the suffix \<^verbatim>\<open>_right\<close>, and two columns of one name are a \<open>DuplicateError\<close>.
\<close>

definition suffix_right :: "string list \<Rightarrow> string \<Rightarrow> string" where
  "suffix_right left c = (if c \<in> set left then c @ ''_right'' else c)"

definition keys_match :: "cell list \<Rightarrow> cell list \<Rightarrow> bool" where
  "keys_match k k' \<longleftrightarrow> k = k' \<and> None \<notin> set k"

definition join_row ::
  "frame \<Rightarrow> frame \<Rightarrow> string list \<Rightarrow> string list \<Rightarrow> string list \<Rightarrow> cell list \<Rightarrow> cell list list"
where
  "join_row df other left_on right_on keep l =
     (let k = map (cell_at (columns df) l) left_on;
          ms = filter (\<lambda>r. keys_match k (map (cell_at (columns other) r) right_on)) (rows other)
      in if ms = [] then [l @ replicate (length keep) None]
         else map (\<lambda>r. l @ map (cell_at (columns other) r) keep) ms)"

definition join_left ::
  "frame \<Rightarrow> frame \<Rightarrow> string list \<Rightarrow> string list \<Rightarrow> error + frame"
where
  "join_left df other left_on right_on =
     (case missing left_on (columns df) of
        Some c \<Rightarrow> Inl (ColumnNotFoundError c)
      | None \<Rightarrow>
     (case missing right_on (columns other) of
        Some c \<Rightarrow> Inl (ColumnNotFoundError c)
      | None \<Rightarrow>
     (let keep = filter (\<lambda>c. c \<notin> set right_on) (columns other);
          cs = columns df @ map (suffix_right (columns df)) keep
      in if \<not> distinct cs then Inl DuplicateError
         else Inr \<lparr>columns = cs,
                   rows = concat (map (join_row df other left_on right_on keep) (rows df))\<rparr>)))"

text \<open>
  \<^verbatim>\<open>series.str.to_datetime(fmt)\<close> is strict by default: a null stays null, a string is
  parsed, and one string that does not parse fails the whole conversion.
\<close>

definition str_to_datetime ::
  "(string \<Rightarrow> datetime option) \<Rightarrow> cell list \<Rightarrow> error + datetime option list"
where
  "str_to_datetime strptime s =
     (if \<exists>x \<in> set s. case x of None \<Rightarrow> False | Some t \<Rightarrow> strptime t = None
      then Inl (ComputeError ''strict datetime parsing failed'')
      else Inr (map (\<lambda>x. Option.bind x strptime) s))"

definition fill_null :: "'a \<Rightarrow> 'a option list \<Rightarrow> 'a list" where
  "fill_null v s = map (\<lambda>x. case x of None \<Rightarrow> v | Some d \<Rightarrow> d) s"

text \<open>
  A frame with the column \<^verbatim>\<open>valid_from\<close> added by \<^verbatim>\<open>with_columns\<close>. The new column has its own
  type, so every row carries its value apart from the text cells. (A text column of a sheet
  that is itself called \<^verbatim>\<open>valid_from\<close> is replaced by it in polars; here it stays among the
  cells and is never read again.)
\<close>

record stamped =
  scolumns :: "string list"
  srows :: "(cell list \<times> datetime) list"

text \<open>
  \<^verbatim>\<open>df.with_columns(series)\<close> with a series, not an expression: the series is attached by
  position. A series as long as the frame is high fits; a series of length one is broadcast
  to every row (and emptied for a frame without rows); any other length is a \<open>ShapeError\<close>.
\<close>

definition with_columns :: "frame \<Rightarrow> datetime list \<Rightarrow> error + stamped" where
  "with_columns df s =
     (let h = length (rows df); n = length s
      in if n = 1 \<and> 1 < h then
           Inr \<lparr>scolumns = columns df, srows = zip (rows df) (replicate h (hd s))\<rparr>
         else if n = h then Inr \<lparr>scolumns = columns df, srows = zip (rows df) s\<rparr>
         else if h = 0 \<and> n = 1 then Inr \<lparr>scolumns = columns df, srows = []\<rparr>
         else Inl (ShapeError n h))"

text \<open>\<^verbatim>\<open>df.filter(pl.col(c).is_not_null(), ...)\<close>: the rows where every named column has a value.\<close>

definition filter_not_null :: "string list \<Rightarrow> stamped \<Rightarrow> error + stamped" where
  "filter_not_null cs df =
     (case missing cs (scolumns df) of
        Some c \<Rightarrow> Inl (ColumnNotFoundError c)
      | None \<Rightarrow>
          Inr (df\<lparr>srows := filter (\<lambda>(r, d). \<forall>c \<in> set cs. cell_at (scolumns df) r c \<noteq> None)
                               (srows df)\<rparr>))"

text \<open>
  \<^verbatim>\<open>select\<close> of the seven columns followed by \<^verbatim>\<open>rename\<close>: the six text columns are looked up
  by their sheet names and become the fields of a \<open>clean_row\<close>.
\<close>

definition project_row :: "string list \<Rightarrow> cell list \<times> datetime \<Rightarrow> clean_row" where
  "project_row cs rd =
     \<lparr>name = cell_at cs (fst rd) ''Product Name'',
      ingredients = cell_at cs (fst rd) ''Ingredients on Product Page'',
      allergens = cell_at cs (fst rd) ''Allergens and Warnings'',
      picture = cell_at cs (fst rd) ''URL of primary product picture'',
      restaurant = cell_at cs (fst rd) ''Store'',
      category = cell_at cs (fst rd) ''Fig Category 1'',
      valid_from = snd rd\<rparr>"

definition select_rename :: "stamped \<Rightarrow> error + clean_row list" where
  "select_rename df =
     (case missing [''Product Name'', ''Ingredients on Product Page'', ''Allergens and Warnings'',
                    ''URL of primary product picture'', ''Store'', ''Fig Category 1'']
                   (scolumns df) of
        Some c \<Rightarrow> Inl (ColumnNotFoundError c)
      | None \<Rightarrow> Inr (map (project_row (scolumns df)) (srows df)))"

text \<open>
  \<^verbatim>\<open>unique()\<close> keeps one copy of every row. polars leaves the order of the result open; the
  model keeps the order of the last occurrences, one of the orders a run can give. No
  general theorem below depends on that order; the example runs show the outcome for it.
\<close>

definition unique :: "'a list \<Rightarrow> 'a list" where
  "unique xs = remdups xs"

section \<open>Cleaning\<close>

text \<open>\<^verbatim>\<open>datetime(2023, 1, 1, 0, 0, 0, 0)\<close>\<close>

definition default_valid_from :: datetime where
  "default_valid_from =
     \<lparr>year = 2023, month = 1, day = 1, hour = 0, minute = 0, second = 0, microsecond = 0\<rparr>"

text \<open>
  The series \<^verbatim>\<open>menu_items_raw[''].str.to_datetime('New - %m/%d/%Y').fill_null(...)\<close>, built from
  the raw table.
\<close>

definition valid_from_series ::
  "(string \<Rightarrow> datetime option) \<Rightarrow> frame \<Rightarrow> error + datetime list"
where
  "valid_from_series strptime menu_items_raw =
     (case get_column menu_items_raw '''' of
        Inl e \<Rightarrow> Inl e
      | Inr s \<Rightarrow>
     (case str_to_datetime strptime s of
        Inl e \<Rightarrow> Inl e
      | Inr d \<Rightarrow> Inr (fill_null default_valid_from d)))"

definition joined :: "frame \<Rightarrow> frame \<Rightarrow> error + frame" where
  "joined menu_items_raw categories_raw =
     join_left menu_items_raw categories_raw
       [''Store'', ''Product category'']
       [''Restaurant name'', ''Restaurant original category'']"

text \<open>
  The steps after the join: the receiver \<open>j\<close> of \<^verbatim>\<open>with_columns\<close> is the join result, its
  argument is built from the raw table.
\<close>

definition clean_from ::
  "(string \<Rightarrow> datetime option) \<Rightarrow> frame \<Rightarrow> frame \<Rightarrow> error + clean_row list"
where
  "clean_from strptime menu_items_raw j =
     (case valid_from_series strptime menu_items_raw of
        Inl e \<Rightarrow> Inl e
      | Inr s \<Rightarrow>
     (case with_columns j s of
        Inl e \<Rightarrow> Inl e
      | Inr w \<Rightarrow>
     (case filter_not_null [''Product Name'', ''Ingredients on Product Page'', ''Store''] w of
        Inl e \<Rightarrow> Inl e
      | Inr f \<Rightarrow>
     (case select_rename f of
        Inl e \<Rightarrow> Inl e
      | Inr p \<Rightarrow> Inr (unique p)))))"

definition menu_items_clean ::
  "(string \<Rightarrow> datetime option) \<Rightarrow> frame \<Rightarrow> frame \<Rightarrow> error + clean_row list"
where
  "menu_items_clean strptime menu_items_raw categories_raw =
     (case joined menu_items_raw categories_raw of
        Inl e \<Rightarrow> Inl e
      | Inr j \<Rightarrow> clean_from strptime menu_items_raw j)"

section \<open>Normalization\<close>

text \<open>
  The five projections of the cleaned table. \<open>ingredients\<close> and \<open>allergens\<close> are already the
  names of columns, so the two tables of these names carry the suffix \<open>_df\<close>. A row of
  \<open>menu_items\<close> is \<open>(name, restaurant, category)\<close>; a row of the three child tables is
  \<open>(product, restaurant, value)\<close>. \<^verbatim>\<open>sort('name')\<close> is ascending, by bytes, nulls first.
\<close>

definition restaurants :: "clean_row list \<Rightarrow> cell list" where
  "restaurants clean = sort (unique (map restaurant clean))"

definition menu_items :: "clean_row list \<Rightarrow> (cell \<times> cell \<times> cell) list" where
  "menu_items clean =
     unique (map (\<lambda>r. (name r, restaurant r, category r)) clean)"

definition pictures :: "clean_row list \<Rightarrow> (cell \<times> cell \<times> cell) list" where
  "pictures clean =
     unique (map (\<lambda>r. (name r, restaurant r, picture r)) clean)"

definition ingredients_df :: "clean_row list \<Rightarrow> (cell \<times> cell \<times> cell) list" where
  "ingredients_df clean =
     unique (map (\<lambda>r. (name r, restaurant r, ingredients r)) clean)"

definition allergens_df :: "clean_row list \<Rightarrow> (cell \<times> cell \<times> cell) list" where
  "allergens_df clean =
     unique (map (\<lambda>r. (name r, restaurant r, allergens r)) clean)"

section \<open>The database\<close>

text \<open>
  The five tables of the declared classes. \<open>id\<close> is a serial primary key: the database takes
  it from the sequence of the table. \<open>restaurant_id\<close> and \<open>item_id\<close> are declared
  \<^verbatim>\<open>nullable=False\<close> with a foreign key, so a stored row holds an integer there; the text
  columns are nullable, and \<open>restaurants.name\<close> carries no constraint at all.
  A row of \<open>menu_items\<close> is \<open>(id, restaurant_id, name, category)\<close>, a row of a child table
  \<open>(id, item_id, value)\<close>.
\<close>

record database =
  restaurants_seq :: int
  restaurants_table :: "(int \<times> cell) list"
  menu_items_seq :: int
  menu_items_table :: "(int \<times> int \<times> cell \<times> cell) list"
  ingredients_seq :: int
  ingredients_table :: "(int \<times> int \<times> cell) list"
  allergens_seq :: int
  allergens_table :: "(int \<times> int \<times> cell) list"
  pictures_seq :: int
  pictures_table :: "(int \<times> int \<times> cell) list"

text \<open>The rows of a frame with the ids the sequence gives them, in order.\<close>

definition assign_ids :: "int \<Rightarrow> 'a list \<Rightarrow> (int \<times> 'a) list" where
  "assign_ids seq xs = zip (map (\<lambda>k. seq + int k) [0..<length xs]) xs"

text \<open>
  \<^verbatim>\<open>write_database(..., if_table_exists='append')\<close> inserts the rows in one transaction:
  the first row the database refuses raises, and nothing is stored.
\<close>

fun collect :: "('a \<Rightarrow> error + 'b) \<Rightarrow> 'a list \<Rightarrow> error + 'b list" where
  "collect f [] = Inr []"
| "collect f (x # xs) =
     (case f x of
        Inl e \<Rightarrow> Inl e
      | Inr y \<Rightarrow> (case collect f xs of Inl e \<Rightarrow> Inl e | Inr ys \<Rightarrow> Inr (y # ys)))"

definition insert_restaurant :: "database \<Rightarrow> int \<times> cell \<Rightarrow> error + int \<times> cell" where
  "insert_restaurant db x =
     (if fst x \<in> set (map fst (restaurants_table db)) then Inl (UniqueViolation ''restaurants.id'')
      else Inr x)"

definition write_restaurants :: "database \<Rightarrow> cell list \<Rightarrow> error + database" where
  "write_restaurants db df =
     (case collect (insert_restaurant db) (assign_ids (restaurants_seq db) df) of
        Inl e \<Rightarrow> Inl e
      | Inr new \<Rightarrow>
          Inr (db\<lparr>restaurants_table := restaurants_table db @ new,
                  restaurants_seq := restaurants_seq db + int (length df)\<rparr>))"

definition insert_menu_item ::
  "database \<Rightarrow> int \<times> int option \<times> cell \<times> cell \<Rightarrow> error + int \<times> int \<times> cell \<times> cell"
where
  "insert_menu_item db x =
     (case x of (i, rid, n, c) \<Rightarrow>
        (case rid of
           None \<Rightarrow> Inl (NotNullViolation ''menu_items.restaurant_id'')
         | Some r \<Rightarrow>
             if i \<in> set (map fst (menu_items_table db)) then Inl (UniqueViolation ''menu_items.id'')
             else if r \<notin> set (map fst (restaurants_table db))
               then Inl (ForeignKeyViolation ''menu_items.restaurant_id'')
             else Inr (i, r, n, c)))"

definition write_menu_items ::
  "database \<Rightarrow> (int option \<times> cell \<times> cell) list \<Rightarrow> error + database"
where
  "write_menu_items db df =
     (case collect (insert_menu_item db) (assign_ids (menu_items_seq db) df) of
        Inl e \<Rightarrow> Inl e
      | Inr new \<Rightarrow>
          Inr (db\<lparr>menu_items_table := menu_items_table db @ new,
                  menu_items_seq := menu_items_seq db + int (length df)\<rparr>))"

text \<open>One row into a child table whose rows are \<open>old\<close>; \<open>t\<close> names the table.\<close>

definition insert_child ::
  "string \<Rightarrow> database \<Rightarrow> (int \<times> int \<times> cell) list \<Rightarrow> int \<times> int option \<times> cell
     \<Rightarrow> error + int \<times> int \<times> cell"
where
  "insert_child t db old x =
     (case x of (i, item, v) \<Rightarrow>
        (case item of
           None \<Rightarrow> Inl (NotNullViolation (t @ ''.item_id''))
         | Some m \<Rightarrow>
             if i \<in> set (map fst old) then Inl (UniqueViolation (t @ ''.id''))
             else if m \<notin> set (map fst (menu_items_table db))
               then Inl (ForeignKeyViolation (t @ ''.item_id''))
             else Inr (i, m, v)))"

definition write_ingredients ::
  "database \<Rightarrow> (int option \<times> cell) list \<Rightarrow> error + database"
where
  "write_ingredients db df =
     (case collect (insert_child ''ingredients'' db (ingredients_table db))
             (assign_ids (ingredients_seq db) df) of
        Inl e \<Rightarrow> Inl e
      | Inr new \<Rightarrow>
          Inr (db\<lparr>ingredients_table := ingredients_table db @ new,
                  ingredients_seq := ingredients_seq db + int (length df)\<rparr>))"

definition write_allergens ::
  "database \<Rightarrow> (int option \<times> cell) list \<Rightarrow> error + database"
where
  "write_allergens db df =
     (case collect (insert_child ''allergens'' db (allergens_table db))
             (assign_ids (allergens_seq db) df) of
        Inl e \<Rightarrow> Inl e
      | Inr new \<Rightarrow>
          Inr (db\<lparr>allergens_table := allergens_table db @ new,
                  allergens_seq := allergens_seq db + int (length df)\<rparr>))"

definition write_pictures ::
  "database \<Rightarrow> (int option \<times> cell) list \<Rightarrow> error + database"
where
  "write_pictures db df =
     (case collect (insert_child ''pictures'' db (pictures_table db))
             (assign_ids (pictures_seq db) df) of
        Inl e \<Rightarrow> Inl e
      | Inr new \<Rightarrow>
          Inr (db\<lparr>pictures_table := pictures_table db @ new,
                  pictures_seq := pictures_seq db + int (length df)\<rparr>))"

section \<open>Loading\<close>

text \<open>
  \<^verbatim>\<open>{k: v for k, v in zip(restaurants_pk['name'], restaurants_pk['id'])}\<close>: for a name that
  several rows carry, the last row wins.
\<close>

definition restaurants_id_map :: "(int \<times> cell) list \<Rightarrow> (cell \<rightharpoonup> int)" where
  "restaurants_id_map restaurants_pk = map_of (rev (map (\<lambda>(i, n). (n, i)) restaurants_pk))"

text \<open>
  \<^verbatim>\<open>pl.col('restaurant').replace(restaurants_id_map, return_dtype=pl.Int64)\<close>: a value that is
  a key becomes its id; any other value is kept and then cast to the return type, where a
  string that is not a number becomes null.
\<close>

definition replace_id :: "(string \<Rightarrow> int option) \<Rightarrow> (cell \<rightharpoonup> int) \<Rightarrow> cell \<Rightarrow> int option" where
  "replace_id cast m x =
     (case m x of Some i \<Rightarrow> Some i | None \<Rightarrow> (case x of None \<Rightarrow> None | Some s \<Rightarrow> cast s))"

text \<open>A row of \<open>menu_items_fk\<close> is \<open>(restaurant_id, name, category)\<close>, sorted by the first two.\<close>

definition menu_items_fk ::
  "(string \<Rightarrow> int option) \<Rightarrow> (cell \<rightharpoonup> int) \<Rightarrow> (cell \<times> cell \<times> cell) list
     \<Rightarrow> (int option \<times> cell \<times> cell) list"
where
  "menu_items_fk cast m df =
     sort_key (\<lambda>(rid, n, c). (rid, n)) (map (\<lambda>(n, r, c). (replace_id cast m r, n, c)) df)"

text \<open>
  The left join of one child row \<open>(product, restaurant_id, value)\<close> with \<open>menu_items_pk\<close> on
  \<open>(product, restaurant_id) = (name, restaurant_id)\<close>, projected to \<open>(id, value)\<close>.
\<close>

definition join_item_id ::
  "(int \<times> int \<times> cell \<times> cell) list \<Rightarrow> cell \<times> int option \<times> cell \<Rightarrow> (int option \<times> cell) list"
where
  "join_item_id menu_items_pk x =
     (case x of (product, rid, v) \<Rightarrow>
        (let ms = filter (\<lambda>(i, r, n, c). product \<noteq> None \<and> n = product \<and> rid = Some r)
                    menu_items_pk
         in if ms = [] then [(None, v)] else map (\<lambda>(i, r, n, c). (Some i, v)) ms))"

definition child_fk ::
  "(string \<Rightarrow> int option) \<Rightarrow> (cell \<rightharpoonup> int) \<Rightarrow> (int \<times> int \<times> cell \<times> cell) list
     \<Rightarrow> (cell \<times> cell \<times> cell) list \<Rightarrow> (int option \<times> cell) list"
where
  "child_fk cast m menu_items_pk df =
     concat (map (\<lambda>(p, r, v). join_item_id menu_items_pk (p, replace_id cast m r, v)) df)"

definition ingredients_fk ::
  "(string \<Rightarrow> int option) \<Rightarrow> (cell \<rightharpoonup> int) \<Rightarrow> (int \<times> int \<times> cell \<times> cell) list
     \<Rightarrow> (cell \<times> cell \<times> cell) list \<Rightarrow> (int option \<times> cell) list"
where
  "ingredients_fk cast m menu_items_pk df = child_fk cast m menu_items_pk df"

definition allergens_fk ::
  "(string \<Rightarrow> int option) \<Rightarrow> (cell \<rightharpoonup> int) \<Rightarrow> (int \<times> int \<times> cell \<times> cell) list
     \<Rightarrow> (cell \<times> cell \<times> cell) list \<Rightarrow> (int option \<times> cell) list"
where
  "allergens_fk cast m menu_items_pk df = child_fk cast m menu_items_pk df"

definition pictures_fk ::
  "(string \<Rightarrow> int option) \<Rightarrow> (cell \<rightharpoonup> int) \<Rightarrow> (int \<times> int \<times> cell \<times> cell) list
     \<Rightarrow> (cell \<times> cell \<times> cell) list \<Rightarrow> (int option \<times> cell) list"
where
  "pictures_fk cast m menu_items_pk df = child_fk cast m menu_items_pk df"

text \<open>The load sequence of the script, from the five projections of a cleaned table.\<close>

definition load ::
  "(string \<Rightarrow> int option) \<Rightarrow> database \<Rightarrow> clean_row list \<Rightarrow> error + database"
where
  "load cast db c =
     (case write_restaurants db (restaurants c) of
        Inl e \<Rightarrow> Inl e
      | Inr db1 \<Rightarrow>
     (let m = restaurants_id_map (restaurants_table db1)
      in case write_menu_items db1 (menu_items_fk cast m (menu_items c)) of
        Inl e \<Rightarrow> Inl e
      | Inr db2 \<Rightarrow>
     (let menu_items_pk = menu_items_table db2
      in case write_ingredients db2 (ingredients_fk cast m menu_items_pk (ingredients_df c)) of
        Inl e \<Rightarrow> Inl e
      | Inr db3 \<Rightarrow>
     (case write_allergens db3 (allergens_fk cast m menu_items_pk (allergens_df c)) of
        Inl e \<Rightarrow> Inl e
      | Inr db4 \<Rightarrow> write_pictures db4 (pictures_fk cast m menu_items_pk (pictures c))))))"

text \<open>The whole script, from the two sheets and the state of the database.\<close>

definition main ::
  "(string \<Rightarrow> datetime option) \<Rightarrow> (string \<Rightarrow> int option) \<Rightarrow> frame \<Rightarrow> frame \<Rightarrow> database
     \<Rightarrow> error + database"
where
  "main strptime cast menu_items_raw categories_raw db =
     (case menu_items_clean strptime menu_items_raw categories_raw of
        Inl e \<Rightarrow> Inl e
      | Inr c \<Rightarrow> load cast db c)"

section \<open>The two string functions of the library, for running the model\<close>

text \<open>
  A parser of the pattern \<^verbatim>\<open>'New - %m/%d/%Y'\<close> and a cast of a decimal numeral, to evaluate
  the model on examples. They are stand-ins for the library: every general theorem holds for
  any parser and any cast, and the examples use them only on strings on which there is no
  doubt (a date written as in the sheet, a word that is no date, a name that is no number).
  As in the library, a blank of the pattern stands for any run of blanks (none included), a
  number may follow blanks, month and day have at most two digits and the year at most four,
  and a numeral to cast may carry a sign.
\<close>

definition digit :: "char \<Rightarrow> nat option" where
  "digit c = (let n = (of_char c :: nat) in if 48 \<le> n \<and> n \<le> 57 then Some (n - 48) else None)"

fun digits :: "nat \<Rightarrow> string \<Rightarrow> nat option" where
  "digits acc [] = Some acc"
| "digits acc (c # cs) = (case digit c of None \<Rightarrow> None | Some d \<Rightarrow> digits (10 * acc + d) cs)"

definition number :: "string \<Rightarrow> nat option" where
  "number s = (if s = [] then None else digits 0 s)"

definition is_blank :: "char \<Rightarrow> bool" where
  "is_blank c \<longleftrightarrow> (of_char c :: nat) \<in> {9, 10, 13, 32}"

text \<open>A number of at most \<open>w\<close> digits, after any blanks.\<close>

definition number_width :: "nat \<Rightarrow> string \<Rightarrow> nat option" where
  "number_width w s =
     (let t = dropWhile is_blank s in if w < length t then None else number t)"

fun split_on :: "char \<Rightarrow> string \<Rightarrow> string list" where
  "split_on c [] = [[]]"
| "split_on c (x # xs) =
     (if x = c then [] # split_on c xs
      else (case split_on c xs of [] \<Rightarrow> [[x]] | y # ys \<Rightarrow> (x # y) # ys))"

definition days_in_month :: "nat \<Rightarrow> nat \<Rightarrow> nat" where
  "days_in_month y m =
     (if m = 2 then (if y mod 4 = 0 \<and> (y mod 100 \<noteq> 0 \<or> y mod 400 = 0) then 29 else 28)
      else if m \<in> {4, 6, 9, 11} then 30 else 31)"

definition strptime_new_mdy :: "string \<Rightarrow> datetime option" where
  "strptime_new_mdy s =
     (if take 3 s \<noteq> ''New'' then None
      else (let s1 = dropWhile is_blank (drop 3 s)
            in if take 1 s1 \<noteq> ''-'' then None
               else (case split_on CHR ''/'' (drop 1 s1) of
                       [a, b, c] \<Rightarrow>
                         (case (number_width 2 a, number_width 2 b, number_width 4 c) of
                            (Some m, Some d, Some y) \<Rightarrow>
                              if 1 \<le> m \<and> m \<le> 12 \<and> 1 \<le> d \<and> d \<le> days_in_month y m
                              then Some \<lparr>year = int y, month = m, day = d, hour = 0,
                                         minute = 0, second = 0, microsecond = 0\<rparr>
                              else None
                          | _ \<Rightarrow> None)
                     | _ \<Rightarrow> None)))"

definition cast_int64 :: "string \<Rightarrow> int option" where
  "cast_int64 s =
     (case (if take 1 s = ''-'' then map_option (\<lambda>n. - int n) (number (drop 1 s))
            else if take 1 s = ''+'' then map_option int (number (drop 1 s))
            else map_option int (number s)) of
        None \<Rightarrow> None
      | Some i \<Rightarrow> if - (2 ^ 63) \<le> i \<and> i < 2 ^ 63 then Some i else None)"

section \<open>Auxiliary notions\<close>

text \<open>A row of a frame with columns \<open>cs\<close> that has the three mandatory fields: the rows the
  filter of the cleaning stage keeps.\<close>

definition complete :: "string list \<Rightarrow> cell list \<Rightarrow> bool" where
  "complete cs r \<longleftrightarrow> cell_at cs r ''Product Name'' \<noteq> None
     \<and> cell_at cs r ''Ingredients on Product Page'' \<noteq> None \<and> cell_at cs r ''Store'' \<noteq> None"

text \<open>The columns of the reference sheet that the join adds: all but its two key columns.\<close>

definition keep_columns :: "frame \<Rightarrow> string list" where
  "keep_columns other =
     filter (\<lambda>c. c \<notin> set [''Restaurant name'', ''Restaurant original category'']) (columns other)"

text \<open>
  The cleaning stage with the join step removed: the same chain of calls on the raw menu
  sheet itself.
\<close>

definition menu_items_clean_no_join ::
  "(string \<Rightarrow> datetime option) \<Rightarrow> frame \<Rightarrow> error + clean_row list"
where
  "menu_items_clean_no_join strptime menu_items_raw =
     clean_from strptime menu_items_raw menu_items_raw"

section \<open>Example data\<close>

text \<open>
  A menu sheet of three rows (the first without a date, the third without a product name), a
  reference sheet with one row, and the cleaned table they give.
\<close>

definition example_menu_items_raw :: frame where
  "example_menu_items_raw =
     \<lparr>columns = [''Product Name'', ''Ingredients on Product Page'', ''Allergens and Warnings'',
                 ''URL of primary product picture'', ''Store'', ''Product category'',
                 ''Fig Category 1'', ''''],
      rows = [[Some ''Burger'', Some ''beef, bun'', None, None, Some ''Joes Diner'',
               Some ''Entrees'', Some ''Main'', None],
              [Some ''Fries'', Some ''potato'', None, None, Some ''Joes Diner'',
               Some ''Sides'', Some ''Side'', Some ''New - 03/15/2023''],
              [None, Some ''salt'', None, None, Some ''Joes Diner'',
               Some ''Sides'', Some ''Side'', Some ''New - 03/15/2023'']]\<rparr>"

definition example_categories_raw :: frame where
  "example_categories_raw =
     \<lparr>columns = [''Restaurant name'', ''Restaurant original category'', ''Fig Category 1''],
      rows = [[Some ''Joes Diner'', Some ''Sides'', Some ''Fig Sides'']]\<rparr>"

definition example_clean :: "clean_row list" where
  "example_clean =
     [\<lparr>name = Some ''Burger'', ingredients = Some ''beef, bun'', allergens = None,
       picture = None, restaurant = Some ''Joes Diner'', category = Some ''Main'',
       valid_from = default_valid_from\<rparr>,
      \<lparr>name = Some ''Fries'', ingredients = Some ''potato'', allergens = None,
       picture = None, restaurant = Some ''Joes Diner'', category = Some ''Side'',
       valid_from = \<lparr>year = 2023, month = 3, day = 15, hour = 0, minute = 0, second = 0,
                     microsecond = 0\<rparr>\<rparr>]"

text \<open>
  A database with empty tables, a \<open>menu_items\<close> table of one row as it is read back, and a
  frame of two ingredient rows of which only the first has a menu item.
\<close>

definition example_database :: database where
  "example_database =
     \<lparr>restaurants_seq = 1, restaurants_table = [],
      menu_items_seq = 1, menu_items_table = [],
      ingredients_seq = 1, ingredients_table = [],
      allergens_seq = 1, allergens_table = [],
      pictures_seq = 1, pictures_table = []\<rparr>"

definition example_menu_items_pk :: "(int \<times> int \<times> cell \<times> cell) list" where
  "example_menu_items_pk = [(1, 1, Some ''Burger'', Some ''Main'')]"

definition example_children :: "(cell \<times> cell \<times> cell) list" where
  "example_children =
     [(Some ''Burger'', Some ''Joes Diner'', Some ''beef, bun''),
      (Some ''Fries'', Some ''Joes Diner'', Some ''potato'')]"

text \<open>The join of the two example sheets.\<close>

definition example_joined :: frame where
  "example_joined =
     \<lparr>columns = [''Product Name'', ''Ingredients on Product Page'', ''Allergens and Warnings'',
                 ''URL of primary product picture'', ''Store'', ''Product category'',
                 ''Fig Category 1'', '''', ''Fig Category 1_right''],
      rows = [[Some ''Burger'', Some ''beef, bun'', None, None, Some ''Joes Diner'',
               Some ''Entrees'', Some ''Main'', None, None],
              [Some ''Fries'', Some ''potato'', None, None, Some ''Joes Diner'',
               Some ''Sides'', Some ''Side'', Some ''New - 03/15/2023'', Some ''Fig Sides''],
              [None, Some ''salt'', None, None, Some ''Joes Diner'',
               Some ''Sides'', Some ''Side'', Some ''New - 03/15/2023'', Some ''Fig Sides'']]\<rparr>"

text \<open>
  A menu sheet of one row and a reference sheet that carries the key of that row twice; and a
  menu sheet whose date does not follow the pattern.
\<close>

definition example_single_raw :: frame where
  "example_single_raw =
     \<lparr>columns = [''Product Name'', ''Ingredients on Product Page'', ''Allergens and Warnings'',
                 ''URL of primary product picture'', ''Store'', ''Product category'',
                 ''Fig Category 1'', ''''],
      rows = [[Some ''Fries'', Some ''potato'', None, None, Some ''Joes Diner'',
               Some ''Sides'', Some ''Side'', Some ''New - 03/15/2023'']]\<rparr>"

definition example_duplicate_categories :: frame where
  "example_duplicate_categories =
     \<lparr>columns = [''Restaurant name'', ''Restaurant original category'', ''Fig Category 1''],
      rows = [[Some ''Joes Diner'', Some ''Sides'', Some ''Fig Sides''],
              [Some ''Joes Diner'', Some ''Sides'', Some ''Fig Extras'']]\<rparr>"

definition example_single_joined :: frame where
  "example_single_joined =
     \<lparr>columns = [''Product Name'', ''Ingredients on Product Page'', ''Allergens and Warnings'',
                 ''URL of primary product picture'', ''Store'', ''Product category'',
                 ''Fig Category 1'', '''', ''Fig Category 1_right''],
      rows = [[Some ''Fries'', Some ''potato'', None, None, Some ''Joes Diner'',
               Some ''Sides'', Some ''Side'', Some ''New - 03/15/2023'', Some ''Fig Sides''],
              [Some ''Fries'', Some ''potato'', None, None, Some ''Joes Diner'',
               Some ''Sides'', Some ''Side'', Some ''New - 03/15/2023'', Some ''Fig Extras'']]\<rparr>"

definition example_duplicate_joined :: frame where
  "example_duplicate_joined =
     \<lparr>columns = [''Product Name'', ''Ingredients on Product Page'', ''Allergens and Warnings'',
                 ''URL of primary product picture'', ''Store'', ''Product category'',
                 ''Fig Category 1'', '''', ''Fig Category 1_right''],
      rows = [[Some ''Burger'', Some ''beef, bun'', None, None, Some ''Joes Diner'',
               Some ''Entrees'', Some ''Main'', None, None],
              [Some ''Fries'', Some ''potato'', None, None, Some ''Joes Diner'',
               Some ''Sides'', Some ''Side'', Some ''New - 03/15/2023'', Some ''Fig Sides''],
              [Some ''Fries'', Some ''potato'', None, None, Some ''Joes Diner'',
               Some ''Sides'', Some ''Side'', Some ''New - 03/15/2023'', Some ''Fig Extras''],
              [None, Some ''salt'', None, None, Some ''Joes Diner'',
               Some ''Sides'', Some ''Side'', Some ''New - 03/15/2023'', Some ''Fig Sides''],
              [None, Some ''salt'', None, None, Some ''Joes Diner'',
               Some ''Sides'', Some ''Side'', Some ''New - 03/15/2023'', Some ''Fig Extras'']]\<rparr>"

definition example_bad_date_raw :: frame where
  "example_bad_date_raw =
     \<lparr>columns = [''Product Name'', ''Ingredients on Product Page'', ''Allergens and Warnings'',
                 ''URL of primary product picture'', ''Store'', ''Product category'',
                 ''Fig Category 1'', ''''],
      rows = [[Some ''Fries'', Some ''potato'', None, None, Some ''Joes Diner'',
               Some ''Sides'', Some ''Side'', Some ''New - soon'']]\<rparr>"

text \<open>The example database after one run of the job on the example sheets.\<close>

definition example_database_loaded :: database where
  "example_database_loaded =
     \<lparr>restaurants_seq = 2, restaurants_table = [(1, Some ''Joes Diner'')],
      menu_items_seq = 3,
      menu_items_table = [(1, 1, Some ''Burger'', Some ''Main''),
                          (2, 1, Some ''Fries'', Some ''Side'')],
      ingredients_seq = 3,
      ingredients_table = [(1, 1, Some ''beef, bun''), (2, 2, Some ''potato'')],
      allergens_seq = 3, allergens_table = [(1, 1, None), (2, 2, None)],
      pictures_seq = 3, pictures_table = [(1, 1, None), (2, 2, None)]\<rparr>"

text \<open>The row of the example menu sheet that no row of the example reference sheet matches.\<close>

definition example_unmatched :: "cell list" where
  "example_unmatched =
     [Some ''Burger'', Some ''beef, bun'', None, None, Some ''Joes Diner'', Some ''Entrees'',
      Some ''Main'', None]"





section \<open>Properties of the cleaning stage\<close>

lemma with_columns_broadcast:
  "length s = 1 \<Longrightarrow> 1 < length (rows j) \<Longrightarrow>
   with_columns j s = Inr \<lparr>scolumns = columns j,
                            srows = zip (rows j) (replicate (length (rows j)) (hd s))\<rparr>"
  by (simp add: with_columns_def Let_def)

lemma with_columns_fits:
  "length s = length (rows j) \<Longrightarrow>
   with_columns j s = Inr \<lparr>scolumns = columns j, srows = zip (rows j) s\<rparr>"
  by (cases "length (rows j) = 1") (simp_all add: with_columns_def Let_def)

lemma with_columns_mismatch:
  "length s \<noteq> length (rows j) \<Longrightarrow> length s \<noteq> 1 \<Longrightarrow>
   with_columns j s = Inl (ShapeError (length s) (length (rows j)))"
  by (simp add: with_columns_def Let_def)

lemma with_columns_empty:
  "length s = 1 \<Longrightarrow> rows j = [] \<Longrightarrow>
   with_columns j s = Inr \<lparr>scolumns = columns j, srows = []\<rparr>"
  by (simp add: with_columns_def Let_def)

lemma with_columns_Inr:
  assumes "with_columns j s = Inr w"
  shows "scolumns w = columns j" and "map fst (srows w) = rows j"
    and "snd ` set (srows w) \<subseteq> set s"
proof -
  have "scolumns w = columns j \<and> map fst (srows w) = rows j \<and> snd ` set (srows w) \<subseteq> set s"
  proof (cases "length s = length (rows j)")
    case True
    with assms have "w = \<lparr>scolumns = columns j, srows = zip (rows j) s\<rparr>"
      by (simp add: with_columns_fits)
    with True show ?thesis by (auto dest: set_zip_rightD)
  next
    case neq: False
    show ?thesis
    proof (cases "length s = 1")
      case False
      with neq assms show ?thesis by (simp add: with_columns_mismatch)
    next
      case one: True
      then have "s \<noteq> []" by auto
      then have hd: "hd s \<in> set s" by simp
      show ?thesis
      proof (cases "rows j = []")
        case True
        with one assms have "w = \<lparr>scolumns = columns j, srows = []\<rparr>"
          by (simp add: with_columns_empty)
        with True show ?thesis by simp
      next
        case False
        with neq one have "1 < length (rows j)"
          by (cases "rows j") auto
        with one assms
        have w: "w = \<lparr>scolumns = columns j,
                      srows = zip (rows j) (replicate (length (rows j)) (hd s))\<rparr>"
          by (simp add: with_columns_broadcast)
        have "snd ` set (zip (rows j) (replicate (length (rows j)) (hd s))) \<subseteq> {hd s}"
          by (auto dest!: set_zip_rightD)
        with w hd show ?thesis by auto
      qed
    qed
  qed
  then show "scolumns w = columns j" and "map fst (srows w) = rows j"
    and "snd ` set (srows w) \<subseteq> set s"
    by simp_all
qed

lemma clean_from_Inr:
  assumes "clean_from p raw j = Inr out"
  obtains s w where "valid_from_series p raw = Inr s" and "with_columns j s = Inr w"
    and "out = unique (map (project_row (columns j))
                 (filter (\<lambda>(r, d). complete (columns j) r) (srows w)))"
proof -
  from assms obtain s where s: "valid_from_series p raw = Inr s"
    by (auto simp: clean_from_def split: sum.splits)
  from assms s obtain w where w: "with_columns j s = Inr w"
    by (auto simp: clean_from_def split: sum.splits)
  have sc: "scolumns w = columns j" using with_columns_Inr(1)[OF w] .
  from assms s w obtain f where f: "filter_not_null [''Product Name'', ''Ingredients on Product Page'', ''Store''] w = Inr f"
    by (auto simp: clean_from_def split: sum.splits)
  from assms s w f obtain q where q: "select_rename f = Inr q" and out: "out = unique q"
    by (auto simp: clean_from_def split: sum.splits)
  from f have f': "f = w\<lparr>srows := filter (\<lambda>(r, d). complete (columns j) r) (srows w)\<rparr>"
    by (auto simp: filter_not_null_def complete_def sc split: option.splits)
  from q have "q = map (project_row (scolumns f)) (srows f)"
    by (auto simp: select_rename_def split: option.splits)
  with f' sc out have "out = unique (map (project_row (columns j))
                 (filter (\<lambda>(r, d). complete (columns j) r) (srows w)))" by simp
  with s w that show ?thesis by blast
qed

lemma clean_row_source:
  assumes "clean_from p raw j = Inr out" and "x \<in> set out"
  obtains s r d where "valid_from_series p raw = Inr s" and "r \<in> set (rows j)" and "d \<in> set s"
    and "complete (columns j) r" and "x = project_row (columns j) (r, d)"
proof -
  from assms(1) obtain s w where s: "valid_from_series p raw = Inr s" and w: "with_columns j s = Inr w"
    and out: "out = unique (map (project_row (columns j))
                 (filter (\<lambda>(r, d). complete (columns j) r) (srows w)))"
    by (rule clean_from_Inr)
  from assms(2) out obtain r d where rd: "(r, d) \<in> set (srows w)" "complete (columns j) r"
    "x = project_row (columns j) (r, d)"
    by (auto simp: unique_def)
  from rd(1) have "r \<in> set (map fst (srows w))" by force
  then have r: "r \<in> set (rows j)" using with_columns_Inr(2)[OF w] by simp
  from rd(1) have "d \<in> snd ` set (srows w)" by force
  then have d: "d \<in> set s" using with_columns_Inr(3)[OF w] by blast
  from s r d rd that show ?thesis by blast
qed

lemma example_clean_run:
  "menu_items_clean strptime_new_mdy example_menu_items_raw example_categories_raw = Inr example_clean"
  by code_simp


lemma menu_items_clean_Inr:
  assumes "menu_items_clean p raw cats = Inr out"
  obtains j where "joined raw cats = Inr j" and "clean_from p raw j = Inr out"
  using assms by (auto simp: menu_items_clean_def split: sum.splits)

lemma project_row_complete:
  "complete cs r \<Longrightarrow> x = project_row cs (r, d) \<Longrightarrow>
   name x \<noteq> None \<and> ingredients x \<noteq> None \<and> restaurant x \<noteq> None"
  by (simp add: complete_def project_row_def)

text \<open>
  C3. Every row of the cleaned table has a product name, an ingredients text and a store name.
  Every such row is the projection of a row of the join result that has all three, so a row
  that misses one of them is dropped; and in each of the five normalized tables the name (or
  product) and the restaurant of every row are present, as is the text of every row of the
  ingredients table.
\<close>

theorem mandatory_fields_not_null:
  assumes "menu_items_clean strptime menu_items_raw categories_raw = Inr c"
  shows "(\<forall>x \<in> set c. name x \<noteq> None \<and> ingredients x \<noteq> None \<and> restaurant x \<noteq> None)
       \<and> (\<exists>j. joined menu_items_raw categories_raw = Inr j
              \<and> (\<forall>x \<in> set c. \<exists>r \<in> set (rows j). complete (columns j) r
                     \<and> x = project_row (columns j) (r, valid_from x)))
       \<and> (\<forall>n \<in> set (restaurants c). n \<noteq> None)
       \<and> (\<forall>x \<in> set (menu_items c). fst x \<noteq> None \<and> fst (snd x) \<noteq> None)
       \<and> (\<forall>x \<in> set (pictures c). fst x \<noteq> None \<and> fst (snd x) \<noteq> None)
       \<and> (\<forall>x \<in> set (ingredients_df c).
             fst x \<noteq> None \<and> fst (snd x) \<noteq> None \<and> snd (snd x) \<noteq> None)
       \<and> (\<forall>x \<in> set (allergens_df c). fst x \<noteq> None \<and> fst (snd x) \<noteq> None)"
proof -
  from assms obtain j where j: "joined menu_items_raw categories_raw = Inr j"
    and cf: "clean_from strptime menu_items_raw j = Inr c"
    by (rule menu_items_clean_Inr)
  have src: "\<exists>r \<in> set (rows j). complete (columns j) r
               \<and> x = project_row (columns j) (r, valid_from x)" if "x \<in> set c" for x
  proof -
    from cf that obtain s r d where r: "r \<in> set (rows j)" "complete (columns j) r"
      and x: "x = project_row (columns j) (r, d)"
      by (rule clean_row_source)
    from x have "valid_from x = d" by (simp add: project_row_def)
    with x have "x = project_row (columns j) (r, valid_from x)" by simp
    with r show ?thesis by (intro bexI [of _ r] conjI)
  qed
  have nn: "name x \<noteq> None \<and> ingredients x \<noteq> None \<and> restaurant x \<noteq> None" if "x \<in> set c" for x
    using src[OF that] project_row_complete by blast
  have "\<forall>n \<in> set (restaurants c). n \<noteq> None"
    using nn by (auto simp: restaurants_def unique_def)
  moreover have "\<forall>x \<in> set (menu_items c). fst x \<noteq> None \<and> fst (snd x) \<noteq> None"
    using nn by (auto simp: menu_items_def unique_def)
  moreover have "\<forall>x \<in> set (pictures c). fst x \<noteq> None \<and> fst (snd x) \<noteq> None"
    using nn by (auto simp: pictures_def unique_def)
  moreover have "\<forall>x \<in> set (ingredients_df c).
      fst x \<noteq> None \<and> fst (snd x) \<noteq> None \<and> snd (snd x) \<noteq> None"
    using nn by (auto simp: ingredients_df_def unique_def)
  moreover have "\<forall>x \<in> set (allergens_df c). fst x \<noteq> None \<and> fst (snd x) \<noteq> None"
    using nn by (auto simp: allergens_df_def unique_def)
  ultimately show ?thesis using j src nn by blast
qed

theorem mandatory_fields_not_null_witness:
  "menu_items_clean strptime_new_mdy example_menu_items_raw example_categories_raw
     = Inr example_clean
   \<and> list_all (\<lambda>x. name x \<noteq> None \<and> ingredients x \<noteq> None \<and> restaurant x \<noteq> None)
        example_clean
   \<and> list_all (\<lambda>x. fst x \<noteq> None \<and> fst (snd x) \<noteq> None) (menu_items example_clean)"
  using mandatory_fields_not_null [OF example_clean_run] example_clean_run
  unfolding list_all_iff by blast

text \<open>
  C6. Every row of the cleaned table is the projection and renaming of a row of the join
  result, together with a value of the derived date column: the cleaning stage makes up no
  row.
\<close>

theorem clean_rows_from_join:
  assumes "menu_items_clean strptime menu_items_raw categories_raw = Inr c"
  shows "\<exists>j s. joined menu_items_raw categories_raw = Inr j
           \<and> valid_from_series strptime menu_items_raw = Inr s
           \<and> (\<forall>x \<in> set c. \<exists>r \<in> set (rows j). \<exists>d \<in> set s.
                 x = project_row (columns j) (r, d))"
proof -
  from assms obtain j where j: "joined menu_items_raw categories_raw = Inr j"
    and cf: "clean_from strptime menu_items_raw j = Inr c"
    by (rule menu_items_clean_Inr)
  from cf obtain s where s: "valid_from_series strptime menu_items_raw = Inr s"
    by (auto elim: clean_from_Inr)
  have "\<exists>r \<in> set (rows j). \<exists>d \<in> set s. x = project_row (columns j) (r, d)"
    if "x \<in> set c" for x
  proof -
    from cf that obtain s' r d where "valid_from_series strptime menu_items_raw = Inr s'"
      "r \<in> set (rows j)" "d \<in> set s'" "x = project_row (columns j) (r, d)"
      by (rule clean_row_source)
    with s show ?thesis by auto
  qed
  with j s show ?thesis by blast
qed

theorem clean_rows_from_join_witness:
  "menu_items_clean strptime_new_mdy example_menu_items_raw example_categories_raw
     = Inr example_clean
   \<and> (\<exists>j s. joined example_menu_items_raw example_categories_raw = Inr j
           \<and> valid_from_series strptime_new_mdy example_menu_items_raw = Inr s
           \<and> (\<forall>x \<in> set example_clean. \<exists>r \<in> set (rows j). \<exists>d \<in> set s.
                 x = project_row (columns j) (r, d)))"
  using clean_rows_from_join [OF example_clean_run] example_clean_run by blast

lemma map_of_zip_append:
  "length l = length cs \<Longrightarrow>
   map_of (zip (cs @ cs') (l @ e)) c
   = (case map_of (zip cs l) c of None \<Rightarrow> map_of (zip cs' e) c | Some v \<Rightarrow> Some v)"
  by (simp add: map_add_def)

lemma cell_at_append_left:
  assumes "length l = length cs" and "c \<in> set cs"
  shows "cell_at (cs @ cs') (l @ e) c = cell_at cs l c"
proof -
  from assms have "map_of (zip cs l) c \<noteq> None" by simp
  then obtain v where v: "map_of (zip cs l) c = Some v" by blast
  show ?thesis
    unfolding cell_at_def map_of_zip_append [OF assms(1)] v by simp
qed

lemma cell_at_append_nulls:
  assumes "length l = length cs" and "c \<notin> set cs"
  shows "cell_at (cs @ cs') (l @ replicate k None) c = None"
proof -
  let ?m = "map_of (zip cs' (replicate k (None :: cell))) c"
  from assms have none: "map_of (zip cs l) c = None" by simp
  have "v = None" if "?m = Some v" for v
  proof -
    from that have "(c, v) \<in> set (zip cs' (replicate k None))" by (rule map_of_SomeD)
    then have "v \<in> set (replicate k (None :: cell))" by (rule set_zip_rightD)
    then show ?thesis by simp
  qed
  then have "(case ?m of None \<Rightarrow> None | Some v \<Rightarrow> v) = None"
    by (cases ?m) auto
  then show ?thesis
    unfolding cell_at_def map_of_zip_append [OF assms(1)] none by simp
qed

lemma joined_Inr:
  assumes "joined raw cats = Inr j"
  shows "columns j = columns raw @ map (suffix_right (columns raw)) (keep_columns cats)"
    and "rows j = concat (map (join_row raw cats [''Store'', ''Product category'']
            [''Restaurant name'', ''Restaurant original category''] (keep_columns cats)) (rows raw))"
  using assms
  by (auto simp: joined_def join_left_def keep_columns_def Let_def split: option.splits if_splits)

lemma join_row_unmatched:
  assumes "\<forall>r \<in> set (rows other). \<not> keys_match (map (cell_at (columns df) l) left_on)
             (map (cell_at (columns other) r) right_on)"
  shows "join_row df other left_on right_on keep l = [l @ replicate (length keep) None]"
proof -
  have "filter (\<lambda>r. keys_match (map (cell_at (columns df) l) left_on)
          (map (cell_at (columns other) r) right_on)) (rows other) = []"
    using assms by (simp add: filter_empty_conv)
  then show ?thesis by (simp add: join_row_def Let_def)
qed

lemma example_joined_run: "joined example_menu_items_raw example_categories_raw = Inr example_joined"
  by code_simp

lemma example_wf: "wf_frame example_menu_items_raw"
  by code_simp

lemma joined_distinct: "joined raw cats = Inr j \<Longrightarrow> distinct (columns j)"
  by (auto simp: joined_def join_left_def Let_def split: option.splits if_splits)

text \<open>
  C5 (as amended). A row of the menu sheet that no row of the reference sheet matches is kept
  by the left join, not dropped: the join result has the columns of the menu sheet followed
  by the columns the reference sheet contributes, and it holds the row with its own values
  in the former and null in each of the latter. The category field of the cleaned table is
  not among the nulled ones when the menu sheet has the column \<open>Fig Category 1\<close>: it keeps
  the value of the row itself.
\<close>

theorem unmatched_row_kept:
  assumes "wf_frame menu_items_raw"
    and "joined menu_items_raw categories_raw = Inr j"
    and "l \<in> set (rows menu_items_raw)"
    and "\<forall>r \<in> set (rows categories_raw).
           \<not> keys_match (map (cell_at (columns menu_items_raw) l) [''Store'', ''Product category''])
               (map (cell_at (columns categories_raw) r)
                  [''Restaurant name'', ''Restaurant original category''])"
  shows "columns j = columns menu_items_raw
           @ map (suffix_right (columns menu_items_raw)) (keep_columns categories_raw)
       \<and> l @ replicate (length (keep_columns categories_raw)) None \<in> set (rows j)
       \<and> (\<forall>c \<in> set (columns menu_items_raw).
             cell_at (columns j) (l @ replicate (length (keep_columns categories_raw)) None) c
             = cell_at (columns menu_items_raw) l c)
       \<and> (\<forall>c \<in> set (keep_columns categories_raw).
             suffix_right (columns menu_items_raw) c \<in> set (columns j)
             \<and> suffix_right (columns menu_items_raw) c \<notin> set (columns menu_items_raw)
             \<and> cell_at (columns j) (l @ replicate (length (keep_columns categories_raw)) None)
                 (suffix_right (columns menu_items_raw) c) = None)
       \<and> (''Fig Category 1'' \<in> set (columns menu_items_raw) \<longrightarrow>
             (\<forall>d. category (project_row (columns j)
                   (l @ replicate (length (keep_columns categories_raw)) None, d))
                  = cell_at (columns menu_items_raw) l ''Fig Category 1''))"
proof -
  let ?keep = "keep_columns categories_raw"
  let ?row = "l @ replicate (length ?keep) None"
  have cols: "columns j = columns menu_items_raw
                @ map (suffix_right (columns menu_items_raw)) ?keep"
    and rws: "rows j = concat (map (join_row menu_items_raw categories_raw
            [''Store'', ''Product category'']
            [''Restaurant name'', ''Restaurant original category''] ?keep) (rows menu_items_raw))"
    using joined_Inr [OF assms(2)] by blast+
  have dist: "distinct (columns j)" using assms(2) by (rule joined_distinct)
  have len: "length l = length (columns menu_items_raw)"
    using assms(1,3) by (simp add: wf_frame_def)
  have "join_row menu_items_raw categories_raw [''Store'', ''Product category'']
            [''Restaurant name'', ''Restaurant original category''] ?keep l = [?row]"
    using assms(4) by (rule join_row_unmatched)
  with assms(3) rws have kept: "?row \<in> set (rows j)"
    by force
  have own: "cell_at (columns j) ?row c = cell_at (columns menu_items_raw) l c"
    if "c \<in> set (columns menu_items_raw)" for c
    unfolding cols using len that by (rule cell_at_append_left)
  have added: "suffix_right (columns menu_items_raw) c \<in> set (columns j)
             \<and> suffix_right (columns menu_items_raw) c \<notin> set (columns menu_items_raw)
             \<and> cell_at (columns j) ?row (suffix_right (columns menu_items_raw) c) = None"
    if "c \<in> set ?keep" for c
  proof -
    let ?c = "suffix_right (columns menu_items_raw) c"
    from that have in2: "?c \<in> set (map (suffix_right (columns menu_items_raw)) ?keep)"
      by simp
    then have in_j: "?c \<in> set (columns j)" unfolding cols by simp
    from dist in2 have notin: "?c \<notin> set (columns menu_items_raw)"
      unfolding cols by auto
    have "cell_at (columns j) ?row ?c = None"
      unfolding cols using len notin by (rule cell_at_append_nulls)
    with in_j notin show ?thesis by simp
  qed
  have cat: "category (project_row (columns j) (?row, d))
             = cell_at (columns menu_items_raw) l ''Fig Category 1''"
    if "''Fig Category 1'' \<in> set (columns menu_items_raw)" for d
    using own [OF that] by (simp add: project_row_def)
  from cols kept own added cat show ?thesis by blast
qed

lemma example_unmatched_run:
  "example_unmatched \<in> set (rows example_menu_items_raw)"
  "\<forall>r \<in> set (rows example_categories_raw).
      \<not> keys_match
          (map (cell_at (columns example_menu_items_raw) example_unmatched)
             [''Store'', ''Product category''])
          (map (cell_at (columns example_categories_raw) r)
             [''Restaurant name'', ''Restaurant original category''])"
  by code_simp+

lemma example_keep_columns:
  "keep_columns example_categories_raw = [''Fig Category 1'']"
  "suffix_right (columns example_menu_items_raw) ''Fig Category 1'' = ''Fig Category 1_right''"
  "''Fig Category 1'' \<in> set (columns example_menu_items_raw)"
  "cell_at (columns example_menu_items_raw) example_unmatched ''Fig Category 1'' = Some ''Main''"
  by code_simp+

theorem unmatched_row_kept_witness:
  "example_unmatched @ [None] \<in> set (rows example_joined)
   \<and> ''Fig Category 1_right'' \<in> set (columns example_joined)
   \<and> cell_at (columns example_joined) (example_unmatched @ [None]) ''Fig Category 1_right''
     = None
   \<and> category (project_row (columns example_joined)
        (example_unmatched @ [None], default_valid_from)) = Some ''Main''"
proof -
  note t = unmatched_row_kept [OF example_wf example_joined_run example_unmatched_run]
  have kept: "example_unmatched @ [None] \<in> set (rows example_joined)"
    using t [THEN conjunct2, THEN conjunct1] by (simp add: example_keep_columns)
  have added: "''Fig Category 1_right'' \<in> set (columns example_joined)
     \<and> cell_at (columns example_joined) (example_unmatched @ [None]) ''Fig Category 1_right''
       = None"
    using t [THEN conjunct2, THEN conjunct2, THEN conjunct2, THEN conjunct1]
    by (simp add: example_keep_columns)
  have cat: "category (project_row (columns example_joined)
        (example_unmatched @ [None], default_valid_from)) = Some ''Main''"
    using t [THEN conjunct2, THEN conjunct2, THEN conjunct2, THEN conjunct2]
    by (simp add: example_keep_columns)
  from kept added cat show ?thesis by simp
qed

text \<open>
  C5 as stated does not hold on a menu sheet that has the column \<open>Fig Category 1\<close>: the Burger
  row of the example has no match in the reference sheet, and its category in the join
  result and in the cleaned table is its own, not null.
\<close>

theorem unmatched_category_counterexample:
  "example_unmatched \<in> set (rows example_menu_items_raw)
   \<and> filter (\<lambda>r. keys_match
          (map (cell_at (columns example_menu_items_raw) example_unmatched)
             [''Store'', ''Product category''])
          (map (cell_at (columns example_categories_raw) r)
             [''Restaurant name'', ''Restaurant original category'']))
        (rows example_categories_raw) = []
   \<and> joined example_menu_items_raw example_categories_raw = Inr example_joined
   \<and> rows example_joined ! 0 = example_unmatched @ [None]
   \<and> cell_at (columns example_joined) (rows example_joined ! 0) ''Fig Category 1''
     = Some ''Main''
   \<and> menu_items_clean strptime_new_mdy example_menu_items_raw example_categories_raw
     = Inr example_clean
   \<and> name (example_clean ! 0) = Some ''Burger''
   \<and> category (example_clean ! 0) = Some ''Main''"
  by code_simp

lemma missing_None_iff: "missing cs have = None \<longleftrightarrow> set cs \<subseteq> set have"
  by (auto simp: missing_def find_None_iff)

lemma clean_from_eq:
  assumes "set [''Product Name'', ''Ingredients on Product Page'', ''Allergens and Warnings'',
               ''URL of primary product picture'', ''Store'', ''Fig Category 1'']
           \<subseteq> set (columns j)"
  shows "clean_from p raw j =
     (case valid_from_series p raw of
        Inl e \<Rightarrow> Inl e
      | Inr s \<Rightarrow>
     (case with_columns j s of
        Inl e \<Rightarrow> Inl e
      | Inr w \<Rightarrow>
          Inr (unique (map (project_row (columns j))
                 (filter (\<lambda>(r, d). complete (columns j) r) (srows w))))))"
proof (cases "valid_from_series p raw")
  case (Inl e)
  then show ?thesis by (simp add: clean_from_def)
next
  case s: (Inr s)
  show ?thesis
  proof (cases "with_columns j s")
    case (Inl e)
    with s show ?thesis by (simp add: clean_from_def)
  next
    case w: (Inr w)
    have sc: "scolumns w = columns j" using with_columns_Inr(1) [OF w] .
    have m3: "missing [''Product Name'', ''Ingredients on Product Page'', ''Store'']
                (scolumns w) = None"
      unfolding missing_None_iff sc using assms by simp
    have m6: "missing [''Product Name'', ''Ingredients on Product Page'',
                ''Allergens and Warnings'', ''URL of primary product picture'', ''Store'',
                ''Fig Category 1''] (scolumns w) = None"
      unfolding missing_None_iff sc using assms by simp
    have f: "filter_not_null [''Product Name'', ''Ingredients on Product Page'', ''Store''] w
             = Inr (w\<lparr>srows := filter (\<lambda>(r, d). complete (columns j) r) (srows w)\<rparr>)"
      unfolding filter_not_null_def m3 by (simp add: complete_def sc)
    have q: "select_rename (w\<lparr>srows := filter (\<lambda>(r, d). complete (columns j) r) (srows w)\<rparr>)
             = Inr (map (project_row (columns j))
                      (filter (\<lambda>(r, d). complete (columns j) r) (srows w)))"
      unfolding select_rename_def using m6 by (simp add: sc)
    show ?thesis
      by (simp add: clean_from_def s w f q)
  qed
qed

lemma length_concat_ge:
  "(\<forall>x \<in> set xs. f x \<noteq> []) \<Longrightarrow> length xs \<le> length (concat (map f xs))"
proof (induction xs)
  case Nil
  then show ?case by simp
next
  case (Cons x xs)
  then have "1 \<le> length (f x)" by (cases "f x") auto
  with Cons show ?case by simp
qed

lemma concat_singletons:
  "(\<forall>x \<in> set xs. f x \<noteq> []) \<Longrightarrow> length (concat (map f xs)) = length xs \<Longrightarrow>
   concat (map f xs) = map (\<lambda>x. hd (f x)) xs"
proof (induction xs)
  case Nil
  then show ?case by simp
next
  case (Cons x xs)
  then have ne: "f x \<noteq> []" and rest: "\<forall>y \<in> set xs. f y \<noteq> []" by simp_all
  from ne have one: "1 \<le> length (f x)" by (cases "f x") auto
  from rest have ge: "length xs \<le> length (concat (map f xs))" by (rule length_concat_ge)
  from Cons.prems(2) have "length (f x) + length (concat (map f xs)) = Suc (length xs)"
    by simp
  with one ge have l1: "length (f x) = 1" and l2: "length (concat (map f xs)) = length xs"
    by arith+
  from l1 have "f x = [hd (f x)]" by (cases "f x") auto
  moreover from Cons.IH [OF rest l2] have "concat (map f xs) = map (\<lambda>x. hd (f x)) xs" .
  ultimately show ?case by simp
qed

lemma join_row_not_Nil: "join_row df other lo ro keep l \<noteq> []"
  by (simp add: join_row_def Let_def)

lemma join_row_extends: "y \<in> set (join_row df other lo ro keep l) \<Longrightarrow> \<exists>e. y = l @ e"
  by (auto simp: join_row_def Let_def split: if_splits)

lemma hd_join_row_extends: "\<exists>e. hd (join_row df other lo ro keep l) = l @ e"
  using join_row_extends [of "hd (join_row df other lo ro keep l)"] join_row_not_Nil
  by (metis hd_in_set)

lemma with_columns_map:
  assumes "rows j = map g (rows raw)"
  shows "with_columns j s =
     (case with_columns raw s of
        Inl e \<Rightarrow> Inl e
      | Inr w \<Rightarrow> Inr \<lparr>scolumns = columns j, srows = map (\<lambda>(l, d). (g l, d)) (srows w)\<rparr>)"
proof -
  have z: "zip (map g xs) ys = map (\<lambda>(l, d). (g l, d)) (zip xs ys)" for xs and ys :: "datetime list"
    by (simp add: zip_map1)
  show ?thesis
    unfolding with_columns_def Let_def assms by (auto simp: z)
qed

lemma map_filter_map_cong:
  "(\<forall>x \<in> set xs. P (G x) = Q x \<and> F (G x) = H x) \<Longrightarrow>
   map F (filter P (map G xs)) = map H (filter Q xs)"
  by (induction xs) auto

lemma project_row_left:
  assumes "set [''Product Name'', ''Ingredients on Product Page'', ''Allergens and Warnings'',
               ''URL of primary product picture'', ''Store'', ''Fig Category 1''] \<subseteq> set cs"
    and "length l = length cs"
  shows "project_row (cs @ cs') (l @ e, d) = project_row cs (l, d)"
    and "complete (cs @ cs') (l @ e) = complete cs l"
  using assms by (simp_all add: project_row_def complete_def cell_at_append_left)

text \<open>
  C9. When the menu sheet itself has the six text columns of the projection, \<open>Fig Category 1\<close>
  among them, and the join result has as many rows as the menu sheet, the cleaning stage
  gives the same result with the join step removed: no column of the reference sheet reaches
  the cleaned table, and the category of every cleaned row is the \<open>Fig Category 1\<close> cell of
  a row of the menu sheet.
\<close>

theorem join_step_redundant:
  assumes "wf_frame menu_items_raw"
    and "set [''Product Name'', ''Ingredients on Product Page'', ''Allergens and Warnings'',
              ''URL of primary product picture'', ''Store'', ''Fig Category 1'']
         \<subseteq> set (columns menu_items_raw)"
    and "joined menu_items_raw categories_raw = Inr j"
    and "length (rows j) = length (rows menu_items_raw)"
  shows "menu_items_clean strptime menu_items_raw categories_raw
         = menu_items_clean_no_join strptime menu_items_raw
       \<and> (\<forall>c. menu_items_clean strptime menu_items_raw categories_raw = Inr c \<longrightarrow>
             (\<forall>x \<in> set c. \<exists>l \<in> set (rows menu_items_raw).
                 category x = cell_at (columns menu_items_raw) l ''Fig Category 1''))"
proof -
  let ?raw = menu_items_raw
  let ?six = "[''Product Name'', ''Ingredients on Product Page'', ''Allergens and Warnings'',
              ''URL of primary product picture'', ''Store'', ''Fig Category 1'']"
  let ?f = "join_row ?raw categories_raw [''Store'', ''Product category'']
            [''Restaurant name'', ''Restaurant original category''] (keep_columns categories_raw)"
  let ?g = "\<lambda>l. hd (?f l)"
  let ?cs' = "map (suffix_right (columns ?raw)) (keep_columns categories_raw)"
  have cols: "columns j = columns ?raw @ ?cs'" and rws: "rows j = concat (map ?f (rows ?raw))"
    using joined_Inr [OF assms(3)] by blast+
  have "\<forall>l \<in> set (rows ?raw). ?f l \<noteq> []" by (simp add: join_row_not_Nil)
  moreover have "length (concat (map ?f (rows ?raw))) = length (rows ?raw)"
    using assms(4) rws by simp
  ultimately have "concat (map ?f (rows ?raw)) = map ?g (rows ?raw)"
    by (rule concat_singletons)
  with rws have rg: "rows j = map ?g (rows ?raw)" by simp
  have six_j: "set ?six \<subseteq> set (columns j)" using assms(2) cols by auto
  have len: "length l = length (columns ?raw)" if "l \<in> set (rows ?raw)" for l
    using assms(1) that by (simp add: wf_frame_def)
  have pr: "project_row (columns j) (?g l, d) = project_row (columns ?raw) (l, d)"
    and co: "complete (columns j) (?g l) = complete (columns ?raw) l"
    if "l \<in> set (rows ?raw)" for l d
  proof -
    obtain e where e: "?g l = l @ e" using hd_join_row_extends by blast
    show "project_row (columns j) (?g l, d) = project_row (columns ?raw) (l, d)"
      unfolding e cols using assms(2) len [OF that] by (rule project_row_left(1))
    show "complete (columns j) (?g l) = complete (columns ?raw) l"
      unfolding e cols using assms(2) len [OF that] by (rule project_row_left(2))
  qed
  have "clean_from strptime ?raw j = clean_from strptime ?raw ?raw"
  proof (cases "valid_from_series strptime ?raw")
    case (Inl e)
    then show ?thesis by (simp add: clean_from_def)
  next
    case s: (Inr s)
    show ?thesis
    proof (cases "with_columns ?raw s")
      case (Inl e)
      then have "with_columns j s = Inl e" by (simp add: with_columns_map [OF rg])
      with Inl s show ?thesis by (simp add: clean_from_def)
    next
      case w: (Inr w)
      let ?G = "\<lambda>(l, d). (?g l, d)"
      have wj: "with_columns j s = Inr \<lparr>scolumns = columns j, srows = map ?G (srows w)\<rparr>"
        using w by (simp add: with_columns_map [OF rg])
      have mem: "fst x \<in> set (rows ?raw)" if "x \<in> set (srows w)" for x
      proof -
        from that have "fst x \<in> set (map fst (srows w))" by simp
        then show ?thesis using with_columns_Inr(2) [OF w] by simp
      qed
      have "\<forall>x \<in> set (srows w).
              (case ?G x of (r, d) \<Rightarrow> complete (columns j) r)
                = (case x of (r, d) \<Rightarrow> complete (columns ?raw) r)
              \<and> project_row (columns j) (?G x) = project_row (columns ?raw) x"
      proof
        fix x assume x: "x \<in> set (srows w)"
        obtain l d where ld: "x = (l, d)" by (cases x)
        with mem [OF x] have "l \<in> set (rows ?raw)" by simp
        from pr [OF this] co [OF this] ld
        show "(case ?G x of (r, d) \<Rightarrow> complete (columns j) r)
                = (case x of (r, d) \<Rightarrow> complete (columns ?raw) r)
              \<and> project_row (columns j) (?G x) = project_row (columns ?raw) x"
          by simp
      qed
      then have "map (project_row (columns j))
              (filter (\<lambda>(r, d). complete (columns j) r) (map ?G (srows w)))
            = map (project_row (columns ?raw))
              (filter (\<lambda>(r, d). complete (columns ?raw) r) (srows w))"
        by (rule map_filter_map_cong)
      then show ?thesis
        by (simp add: clean_from_eq [OF six_j] clean_from_eq [OF assms(2)] s w wj)
    qed
  qed
  then have eq: "menu_items_clean strptime ?raw categories_raw
                 = menu_items_clean_no_join strptime ?raw"
    by (simp add: menu_items_clean_def menu_items_clean_no_join_def assms(3))
  have "\<exists>l \<in> set (rows ?raw). category x = cell_at (columns ?raw) l ''Fig Category 1''"
    if c: "menu_items_clean strptime ?raw categories_raw = Inr c" and x: "x \<in> set c" for c x
  proof -
    from c eq have "clean_from strptime ?raw ?raw = Inr c"
      by (simp add: menu_items_clean_no_join_def)
    from this x obtain s r d where "r \<in> set (rows ?raw)"
      "x = project_row (columns ?raw) (r, d)"
      by (rule clean_row_source)
    then show ?thesis by (auto simp: project_row_def)
  qed
  with eq show ?thesis by blast
qed

lemma example_six_columns:
  "set [''Product Name'', ''Ingredients on Product Page'', ''Allergens and Warnings'',
        ''URL of primary product picture'', ''Store'', ''Fig Category 1'']
   \<subseteq> set (columns example_menu_items_raw)"
  by code_simp

lemma example_same_height: "length (rows example_joined) = length (rows example_menu_items_raw)"
  by code_simp

theorem join_step_redundant_witness:
  "menu_items_clean_no_join strptime_new_mdy example_menu_items_raw = Inr example_clean
   \<and> menu_items_clean strptime_new_mdy example_menu_items_raw example_categories_raw
     = Inr example_clean"
  using join_step_redundant [OF example_wf example_six_columns example_joined_run
      example_same_height, of strptime_new_mdy] example_clean_run
  by simp

lemma get_column_length: "get_column df c = Inr s \<Longrightarrow> length s = length (rows df)"
  by (auto simp: get_column_def split: if_splits)

lemma str_to_datetime_length: "str_to_datetime p s = Inr d \<Longrightarrow> length d = length s"
  by (auto simp: str_to_datetime_def split: if_splits)

lemma valid_from_series_length:
  "valid_from_series p raw = Inr s \<Longrightarrow> length s = length (rows raw)"
  by (auto simp: valid_from_series_def fill_null_def split: sum.splits
      dest!: get_column_length str_to_datetime_length)

text \<open>
  C10 (as amended). The date column is built from the raw menu sheet and attached to the
  join result by position. When it can be built, the join result has another number of rows
  than the menu sheet, and the menu sheet does not consist of a single row, the cleaning
  stage fails with the length mismatch.
\<close>

theorem row_count_mismatch_fails:
  assumes "joined menu_items_raw categories_raw = Inr j"
    and "valid_from_series strptime menu_items_raw = Inr s"
    and "length (rows j) \<noteq> length (rows menu_items_raw)"
    and "length (rows menu_items_raw) \<noteq> 1"
  shows "menu_items_clean strptime menu_items_raw categories_raw
         = Inl (ShapeError (length (rows menu_items_raw)) (length (rows j)))"
proof -
  have n: "length s = length (rows menu_items_raw)"
    using assms(2) by (rule valid_from_series_length)
  with assms(3,4) have "with_columns j s = Inl (ShapeError (length s) (length (rows j)))"
    by (intro with_columns_mismatch) simp_all
  with assms(1,2) n show ?thesis
    by (simp add: menu_items_clean_def clean_from_def)
qed

lemma example_duplicate_joined_run:
  "joined example_menu_items_raw example_duplicate_categories = Inr example_duplicate_joined"
  by code_simp

lemma example_series:
  "valid_from_series strptime_new_mdy example_menu_items_raw
   = Inr [default_valid_from,
          \<lparr>year = 2023, month = 3, day = 15, hour = 0, minute = 0, second = 0, microsecond = 0\<rparr>,
          \<lparr>year = 2023, month = 3, day = 15, hour = 0, minute = 0, second = 0, microsecond = 0\<rparr>]"
  by code_simp

theorem row_count_mismatch_fails_witness:
  "menu_items_clean strptime_new_mdy example_menu_items_raw example_duplicate_categories
   = Inl (ShapeError 3 5)"
proof -
  have h: "length (rows example_menu_items_raw) = 3" "length (rows example_duplicate_joined) = 5"
    by code_simp+
  show ?thesis
    using row_count_mismatch_fails [OF example_duplicate_joined_run example_series]
    by (simp add: h)
qed

text \<open>
  C10 as stated does not hold for a menu sheet of one row: the reference sheet carries the key
  of the row twice, the join result has two rows, and the single date is broadcast to both.
\<close>

theorem single_row_broadcast_counterexample:
  "joined example_single_raw example_duplicate_categories = Inr example_single_joined
   \<and> length (rows example_single_joined) = 2
   \<and> length (rows example_single_raw) = 1
   \<and> menu_items_clean strptime_new_mdy example_single_raw example_duplicate_categories
     = Inr [\<lparr>name = Some ''Fries'', ingredients = Some ''potato'', allergens = None,
             picture = None, restaurant = Some ''Joes Diner'', category = Some ''Side'',
             valid_from = \<lparr>year = 2023, month = 3, day = 15, hour = 0, minute = 0,
                           second = 0, microsecond = 0\<rparr>\<rparr>]"
  by code_simp

text \<open>
  C2 as stated does not hold for a date that is present and does not parse: the row gets no
  default, the cleaning stage fails.
\<close>

theorem unparseable_date_counterexample:
  "menu_items_clean strptime_new_mdy example_bad_date_raw example_categories_raw
   = Inl (ComputeError ''strict datetime parsing failed'')"
  by code_simp

lemma str_to_datetime_ok:
  assumes "\<forall>x \<in> set s. \<forall>t. x = Some t \<longrightarrow> p t \<noteq> None"
  shows "str_to_datetime p s = Inr (map (\<lambda>x. Option.bind x p) s)"
proof -
  have "\<not> (\<exists>x \<in> set s. case x of None \<Rightarrow> False | Some t \<Rightarrow> p t = None)"
    using assms by (auto split: option.splits)
  then show ?thesis by (simp add: str_to_datetime_def)
qed

lemma str_to_datetime_fails:
  assumes "Some t \<in> set s" and "p t = None"
  shows "str_to_datetime p s = Inl (ComputeError ''strict datetime parsing failed'')"
proof -
  have "\<exists>x \<in> set s. case x of None \<Rightarrow> False | Some t \<Rightarrow> p t = None"
    using assms by (intro bexI [of _ "Some t"]) simp_all
  then show ?thesis by (simp add: str_to_datetime_def)
qed

lemma complete_rows_kept:
  assumes "clean_from p raw j = Inr c" and "r \<in> set (rows j)" and "complete (columns j) r"
  shows "\<exists>d. project_row (columns j) (r, d) \<in> set c"
proof -
  from assms(1) obtain s w where w: "with_columns j s = Inr w"
    and c: "c = unique (map (project_row (columns j))
                 (filter (\<lambda>(r, d). complete (columns j) r) (srows w)))"
    by (rule clean_from_Inr)
  from assms(2) have "r \<in> set (map fst (srows w))"
    using with_columns_Inr(2) [OF w] by simp
  then obtain d where "(r, d) \<in> set (srows w)" by auto
  with assms(3) have "project_row (columns j) (r, d) \<in> set c"
    unfolding c unique_def by force
  then show ?thesis ..
qed

text \<open>
  C2 (as amended). When every date string that is present parses, the date column has one
  value for every row of the menu sheet: the parse of the string of the row, or the default
  2023-01-01T00:00:00 when the row has no string; and no row is dropped for its date, every
  row of the join result with the three mandatory fields reaches the cleaned table. One
  string that is present and does not parse fails the conversion, and the cleaning stage
  with it.
\<close>

theorem valid_from_parsed_or_default:
  assumes "'''' \<in> set (columns menu_items_raw)"
  shows "((\<forall>r \<in> set (rows menu_items_raw). \<forall>t.
             cell_at (columns menu_items_raw) r '''' = Some t \<longrightarrow> strptime t \<noteq> None) \<longrightarrow>
          (\<exists>s. valid_from_series strptime menu_items_raw = Inr s
             \<and> length s = length (rows menu_items_raw)
             \<and> (\<forall>i < length (rows menu_items_raw).
                   (cell_at (columns menu_items_raw) (rows menu_items_raw ! i) '''' = None
                      \<longrightarrow> s ! i = default_valid_from)
                 \<and> (\<forall>t. cell_at (columns menu_items_raw) (rows menu_items_raw ! i) '''' = Some t
                      \<longrightarrow> strptime t = Some (s ! i)))))
       \<and> ((\<exists>r \<in> set (rows menu_items_raw). \<exists>t.
             cell_at (columns menu_items_raw) r '''' = Some t \<and> strptime t = None) \<longrightarrow>
          valid_from_series strptime menu_items_raw
            = Inl (ComputeError ''strict datetime parsing failed'')
          \<and> isl (menu_items_clean strptime menu_items_raw categories_raw))
       \<and> (\<forall>c j. menu_items_clean strptime menu_items_raw categories_raw = Inr c \<longrightarrow>
                 joined menu_items_raw categories_raw = Inr j \<longrightarrow>
                 (\<forall>r \<in> set (rows j). complete (columns j) r \<longrightarrow>
                    (\<exists>d. project_row (columns j) (r, d) \<in> set c)))"
proof (intro conjI impI allI)
  let ?raw = menu_items_raw
  let ?col = "map (\<lambda>r. cell_at (columns ?raw) r '''') (rows ?raw)"
  have gc: "get_column ?raw '''' = Inr ?col"
    using assms by (simp add: get_column_def)
  {
    assume ok: "\<forall>r \<in> set (rows ?raw). \<forall>t.
             cell_at (columns ?raw) r '''' = Some t \<longrightarrow> strptime t \<noteq> None"
    let ?s = "fill_null default_valid_from (map (\<lambda>x. Option.bind x strptime) ?col)"
    have "\<forall>x \<in> set ?col. \<forall>t. x = Some t \<longrightarrow> strptime t \<noteq> None"
      using ok by auto
    then have "str_to_datetime strptime ?col = Inr (map (\<lambda>x. Option.bind x strptime) ?col)"
      by (rule str_to_datetime_ok)
    with gc have s: "valid_from_series strptime ?raw = Inr ?s"
      by (simp add: valid_from_series_def)
    have len: "length ?s = length (rows ?raw)" by (simp add: fill_null_def)
    have "(cell_at (columns ?raw) (rows ?raw ! i) '''' = None \<longrightarrow> ?s ! i = default_valid_from)
        \<and> (\<forall>t. cell_at (columns ?raw) (rows ?raw ! i) '''' = Some t
              \<longrightarrow> strptime t = Some (?s ! i))"
      if i: "i < length (rows ?raw)" for i
    proof (intro conjI impI allI)
      assume "cell_at (columns ?raw) (rows ?raw ! i) '''' = None"
      with i show "?s ! i = default_valid_from" by (simp add: fill_null_def)
    next
      fix t assume t: "cell_at (columns ?raw) (rows ?raw ! i) '''' = Some t"
      from i have "rows ?raw ! i \<in> set (rows ?raw)" by simp
      with ok t have "strptime t \<noteq> None" by blast
      then obtain d where d: "strptime t = Some d" by blast
      with i t have "?s ! i = d" by (simp add: fill_null_def)
      with d show "strptime t = Some (?s ! i)" by simp
    qed
    with s len
    show "\<exists>s. valid_from_series strptime ?raw = Inr s
             \<and> length s = length (rows ?raw)
             \<and> (\<forall>i < length (rows ?raw).
                   (cell_at (columns ?raw) (rows ?raw ! i) '''' = None
                      \<longrightarrow> s ! i = default_valid_from)
                 \<and> (\<forall>t. cell_at (columns ?raw) (rows ?raw ! i) '''' = Some t
                      \<longrightarrow> strptime t = Some (s ! i)))"
      by blast
  }
  {
    assume "\<exists>r \<in> set (rows ?raw). \<exists>t.
             cell_at (columns ?raw) r '''' = Some t \<and> strptime t = None"
    then obtain r t where r: "r \<in> set (rows ?raw)"
      and t: "cell_at (columns ?raw) r '''' = Some t" "strptime t = None"
      by blast
    from r t(1) have "Some t \<in> set ?col" by force
    then have "str_to_datetime strptime ?col = Inl (ComputeError ''strict datetime parsing failed'')"
      using t(2) by (rule str_to_datetime_fails)
    with gc show f: "valid_from_series strptime ?raw
            = Inl (ComputeError ''strict datetime parsing failed'')"
      by (simp add: valid_from_series_def)
    show "isl (menu_items_clean strptime ?raw categories_raw)"
      by (cases "joined ?raw categories_raw") (simp_all add: menu_items_clean_def clean_from_def f)
  }
  {
    fix c j
    assume "menu_items_clean strptime ?raw categories_raw = Inr c"
      and j: "joined ?raw categories_raw = Inr j"
    then have "clean_from strptime ?raw j = Inr c" by (simp add: menu_items_clean_def)
    then show "\<forall>r \<in> set (rows j). complete (columns j) r \<longrightarrow>
                 (\<exists>d. project_row (columns j) (r, d) \<in> set c)"
      using complete_rows_kept by blast
  }
qed

lemma example_blank_column: "'''' \<in> set (columns example_menu_items_raw)"
  by code_simp

lemma example_dates_parse:
  "\<forall>r \<in> set (rows example_menu_items_raw). \<forall>t.
      cell_at (columns example_menu_items_raw) r '''' = Some t \<longrightarrow> strptime_new_mdy t \<noteq> None"
proof -
  have "list_all (\<lambda>r. case cell_at (columns example_menu_items_raw) r '''' of
                        None \<Rightarrow> True | Some t \<Rightarrow> strptime_new_mdy t \<noteq> None)
          (rows example_menu_items_raw)"
    by code_simp
  then show ?thesis by (auto simp: list_all_iff split: option.splits)
qed

lemma example_first_date:
  "cell_at (columns example_menu_items_raw) (rows example_menu_items_raw ! 0) '''' = None"
  "cell_at (columns example_menu_items_raw) (rows example_menu_items_raw ! 1) ''''
     = Some ''New - 03/15/2023''"
  "0 < length (rows example_menu_items_raw)" "1 < length (rows example_menu_items_raw)"
  by code_simp+

theorem valid_from_parsed_or_default_witness:
  "\<exists>s. valid_from_series strptime_new_mdy example_menu_items_raw = Inr s
       \<and> s ! 0 = default_valid_from
       \<and> strptime_new_mdy ''New - 03/15/2023'' = Some (s ! 1)"
  using valid_from_parsed_or_default [OF example_blank_column, of strptime_new_mdy]
    example_dates_parse example_first_date
  by metis

lemma restaurants_eq: "restaurants clean = sorted_list_of_set (restaurant ` set clean)"
  by (simp add: restaurants_def unique_def sorted_list_of_set_sort_remdups flip: set_map)

text \<open>
  C7. The restaurants projection is exactly the distinct restaurant names of the cleaned
  table in ascending order: it is sorted, without duplicates, holds the names of the cleaned
  table and no others, and is the same list for any two cleaned tables with the same rows,
  in whatever order \<^verbatim>\<open>unique\<close> leaves them.
\<close>

theorem restaurants_sorted_distinct:
  "restaurants clean = sorted_list_of_set (restaurant ` set clean)
   \<and> sorted (restaurants clean) \<and> distinct (restaurants clean)
   \<and> set (restaurants clean) = restaurant ` set clean
   \<and> (\<forall>clean'. set clean' = set clean \<longrightarrow> restaurants clean' = restaurants clean)"
  by (simp add: restaurants_eq)

theorem restaurants_sorted_distinct_witness:
  "set (rev example_clean) = set example_clean
   \<and> restaurants (rev example_clean) = restaurants example_clean
   \<and> sorted (restaurants example_clean) \<and> distinct (restaurants example_clean)"
  using restaurants_sorted_distinct [of example_clean] by simp

section \<open>Properties of the load\<close>

lemma join_item_id_cases:
  "y \<in> set (join_item_id pk x) \<Longrightarrow> fst y = None \<or> (\<exists>row \<in> set pk. fst y = Some (fst row))"
proof (cases x)
  case (fields product rid v)
  assume y: "y \<in> set (join_item_id pk x)"
  let ?ms = "filter (\<lambda>(i, r, n, c). product \<noteq> None \<and> n = product \<and> rid = Some r) pk"
  show ?thesis
  proof (cases "?ms = []")
    case True
    with y fields show ?thesis by (simp add: join_item_id_def)
  next
    case False
    with y fields have "y \<in> set (map (\<lambda>(i, r, n, c). (Some i, v)) ?ms)"
      by (simp add: join_item_id_def)
    then obtain row where "row \<in> set ?ms" "y = (\<lambda>(i, r, n, c). (Some i, v)) row"
      by auto
    then have "row \<in> set pk" "fst y = Some (fst row)"
      by (auto split: prod.splits)
    then show ?thesis by blast
  qed
qed

lemma child_fk_cases:
  "y \<in> set (child_fk cast m pk df) \<Longrightarrow> fst y = None \<or> (\<exists>row \<in> set pk. fst y = Some (fst row))"
  by (auto simp: child_fk_def dest!: join_item_id_cases)

text \<open>
  C4. In each of the three frames written to the ingredients, allergens and pictures tables,
  every \<open>item_id\<close> is null or the id of a row of \<open>menu_items_pk\<close>, the menu items read back
  from the database.
\<close>

theorem item_id_in_menu_items_or_null:
  "(\<forall>x \<in> set (ingredients_fk cast m menu_items_pk df1).
       fst x = None \<or> (\<exists>row \<in> set menu_items_pk. fst x = Some (fst row)))
   \<and> (\<forall>x \<in> set (allergens_fk cast m menu_items_pk df2).
       fst x = None \<or> (\<exists>row \<in> set menu_items_pk. fst x = Some (fst row)))
   \<and> (\<forall>x \<in> set (pictures_fk cast m menu_items_pk df3).
       fst x = None \<or> (\<exists>row \<in> set menu_items_pk. fst x = Some (fst row)))"
  unfolding ingredients_fk_def allergens_fk_def pictures_fk_def
  using child_fk_cases by blast

lemma example_ingredients_fk:
  "ingredients_fk cast_int64 (restaurants_id_map [(1, Some ''Joes Diner'')])
     example_menu_items_pk example_children
   = [(Some 1, Some ''beef, bun''), (None, Some ''potato'')]"
  by code_simp

theorem item_id_in_menu_items_or_null_witness:
  "ingredients_fk cast_int64 (restaurants_id_map [(1, Some ''Joes Diner'')])
     example_menu_items_pk example_children
   = [(Some 1, Some ''beef, bun''), (None, Some ''potato'')]
   \<and> list_all (\<lambda>x. fst x = None \<or> (\<exists>row \<in> set example_menu_items_pk. fst x = Some (fst row)))
        (ingredients_fk cast_int64 (restaurants_id_map [(1, Some ''Joes Diner'')])
           example_menu_items_pk example_children)"
  using item_id_in_menu_items_or_null
          [of cast_int64 "restaurants_id_map [(1, Some ''Joes Diner'')]" example_menu_items_pk
              example_children]
        example_ingredients_fk
  unfolding list_all_iff by blast

lemma map_snd_assign_ids: "map snd (assign_ids seq xs) = xs"
  by (simp add: assign_ids_def)

lemma collect_insert_restaurant:
  "collect (insert_restaurant db) xs = Inr new \<Longrightarrow> new = xs"
  by (induction xs arbitrary: new) (auto simp: insert_restaurant_def split: sum.splits if_splits)

lemma write_restaurants_Inr:
  assumes "write_restaurants db df = Inr db'"
  shows "restaurants_table db' = restaurants_table db @ assign_ids (restaurants_seq db) df"
  using assms collect_insert_restaurant
  by (fastforce simp: write_restaurants_def split: sum.splits)

lemma write_others_restaurants_table:
  "write_menu_items db a = Inr db' \<Longrightarrow> restaurants_table db' = restaurants_table db"
  "write_ingredients db b = Inr db' \<Longrightarrow> restaurants_table db' = restaurants_table db"
  "write_allergens db b = Inr db' \<Longrightarrow> restaurants_table db' = restaurants_table db"
  "write_pictures db b = Inr db' \<Longrightarrow> restaurants_table db' = restaurants_table db"
  by (auto simp: write_menu_items_def write_ingredients_def write_allergens_def
      write_pictures_def split: sum.splits)

lemma load_restaurants_table:
  assumes "load cast db c = Inr db'"
  shows "restaurants_table db' = restaurants_table db @ assign_ids (restaurants_seq db) (restaurants c)"
proof -
  from assms obtain db1 where 1: "write_restaurants db (restaurants c) = Inr db1"
    by (auto simp: load_def split: sum.splits)
  let ?m = "restaurants_id_map (restaurants_table db1)"
  from assms 1 obtain db2
    where 2: "write_menu_items db1 (menu_items_fk cast ?m (menu_items c)) = Inr db2"
    by (auto simp: load_def Let_def split: sum.splits)
  let ?pk = "menu_items_table db2"
  from assms 1 2 obtain db3
    where 3: "write_ingredients db2 (ingredients_fk cast ?m ?pk (ingredients_df c)) = Inr db3"
    by (auto simp: load_def Let_def split: sum.splits)
  from assms 1 2 3 obtain db4
    where 4: "write_allergens db3 (allergens_fk cast ?m ?pk (allergens_df c)) = Inr db4"
    by (auto simp: load_def Let_def split: sum.splits)
  from assms 1 2 3 4
  have 5: "write_pictures db4 (pictures_fk cast ?m ?pk (pictures c)) = Inr db'"
    by (auto simp: load_def Let_def split: sum.splits)
  have "restaurants_table db' = restaurants_table db1"
    using write_others_restaurants_table(1) [OF 2] write_others_restaurants_table(2) [OF 3]
      write_others_restaurants_table(3) [OF 4] write_others_restaurants_table(4) [OF 5]
    by simp
  with write_restaurants_Inr [OF 1] show ?thesis by simp
qed

lemma clean_rows_not_null:
  assumes "menu_items_clean p raw cats = Inr c" and "x \<in> set c"
  shows "name x \<noteq> None \<and> ingredients x \<noteq> None \<and> restaurant x \<noteq> None"
proof -
  from assms(1) obtain j where "clean_from p raw j = Inr c"
    by (rule menu_items_clean_Inr)
  from this assms(2) obtain s r d where "complete (columns j) r"
    "x = project_row (columns j) (r, d)"
    by (rule clean_row_source)
  then show ?thesis by (rule project_row_complete)
qed

text \<open>
  C8 (as amended). The class \<open>Restaurant\<close> declares \<open>name\<close> as a plain string column, neither
  unique nor not null, and the load appends. What the load sequence gives is this: the rows
  that one run of the job adds to the restaurants table have pairwise different names, none
  of them null; so after a run on an empty table no two rows share a name and no name is
  null.
\<close>

theorem restaurant_names_of_one_run:
  assumes "main strptime cast menu_items_raw categories_raw db = Inr db'"
  shows "\<exists>new. restaurants_table db' = restaurants_table db @ new
           \<and> distinct (map snd new) \<and> None \<notin> set (map snd new)
           \<and> (restaurants_table db = [] \<longrightarrow>
                distinct (map snd (restaurants_table db'))
                \<and> None \<notin> set (map snd (restaurants_table db')))"
proof -
  from assms obtain c where c: "menu_items_clean strptime menu_items_raw categories_raw = Inr c"
    and l: "load cast db c = Inr db'"
    by (auto simp: main_def split: sum.splits)
  let ?new = "assign_ids (restaurants_seq db) (restaurants c)"
  have t: "restaurants_table db' = restaurants_table db @ ?new"
    using l by (rule load_restaurants_table)
  have names: "map snd ?new = restaurants c" by (rule map_snd_assign_ids)
  have d: "distinct (restaurants c)" by (simp add: restaurants_eq)
  have "set (restaurants c) = restaurant ` set c" by (simp add: restaurants_eq)
  then have n: "None \<notin> set (restaurants c)"
    using clean_rows_not_null [OF c] by force
  from t names d n show ?thesis by (intro exI [of _ ?new]) simp
qed

lemma example_first_run:
  "main strptime_new_mdy cast_int64 example_menu_items_raw example_categories_raw
     example_database = Inr example_database_loaded"
  by code_simp

theorem restaurant_names_of_one_run_witness:
  "distinct (map snd (restaurants_table example_database_loaded))
   \<and> None \<notin> set (map snd (restaurants_table example_database_loaded))"
proof -
  have e: "restaurants_table example_database = []" by code_simp
  from restaurant_names_of_one_run [OF example_first_run] e show ?thesis by auto
qed

text \<open>
  C8 as stated does not hold: a second run of the job on the same sheets leaves two rows of
  the restaurants table with one name.
\<close>

theorem rerun_duplicates_names_counterexample:
  "main strptime_new_mdy cast_int64 example_menu_items_raw example_categories_raw
     example_database = Inr example_database_loaded
   \<and> map_sum id restaurants_table
       (main strptime_new_mdy cast_int64 example_menu_items_raw example_categories_raw
          example_database_loaded)
     = Inr [(1, Some ''Joes Diner''), (2, Some ''Joes Diner'')]"
  by code_simp


























end
